theory Spec2Isabelle
  imports Main "HOL-Library.List_Lexorder" "HOL-Library.Char_ord"
begin

section \<open>The record store: tables, constraints, statements\<close>

text \<open>
  The reservations table as the migrations leave it
  (\<^verbatim>\<open>20251203000000_complete_database_schema.sql\<close>,
  \<^verbatim>\<open>20251203010000_safe_improvements.sql\<close>,
  \<^verbatim>\<open>20251204170000_handle_edge_cases.sql\<close>).
  A UUID and a TEXT value are strings; a DATE is a day number; a TIME is a number of whole
  seconds since midnight; a TIMESTAMP WITH TIME ZONE is a number of milliseconds since the
  epoch. A nullable column is an \<open>option\<close>. The columns \<open>approved\<close>, \<open>affiliation\<close>,
  \<open>created_at\<close> and \<open>updated_at\<close> are written by the code below but never read by it, and
  are left out.
\<close>

type_synonym uuid = string
type_synonym date = nat
type_synonym time = nat
type_synonym timestamptz = nat

datatype reservation_status = Pending | Approved | Rejected | Cancelled

record reservation =
  res_id :: uuid
  responsable :: string
  email :: string
  motivo :: string
  fecha :: date
  inicio :: time
  fin :: time
  personas :: int
  status :: reservation_status
  admin_notes :: "string option"
  confirmed :: bool
  confirmation_token :: "uuid option"
  token_expires_at :: "timestamptz option"
  updated_by :: "uuid option"

text \<open>The error object of the record store's client: an SQLSTATE (or client) code and a message.\<close>

datatype pg_error = PgError (code: string) (message: string)

definition unique_violation :: pg_error where
  "unique_violation = PgError ''23505'' ''duplicate key value violates unique constraint reservations_pkey''"

definition time_order_violation :: pg_error where
  "time_order_violation =
     PgError ''23514'' ''new row for relation reservations violates check constraint reservations_time_order_check''"

definition personas_violation :: pg_error where
  "personas_violation =
     PgError ''23514'' ''new row for relation reservations violates check constraint reservations_personas_positive_check''"

definition exclusion_violation :: pg_error where
  "exclusion_violation =
     PgError ''23P01'' ''conflicting key value violates exclusion constraint reservations_no_overlap_excl''"

text \<open>
  \<^verbatim>\<open>reservation_time_range(fecha, inicio, fin)\<close> is
  \<^verbatim>\<open>tsrange((fecha + inicio)::timestamp, (fecha + fin)::timestamp)\<close>: the half-open
  range of the two timestamps, here in seconds. The range constructor raises when the lower
  bound is above the upper one; the check constraint \<open>fin > inicio\<close> is evaluated before the
  exclusion constraint, so the constructor only ever sees ordered bounds.
  \<^verbatim>\<open>&&\<close> is the overlap of two ranges; an empty range overlaps nothing.
\<close>

definition reservation_time_range :: "date \<Rightarrow> time \<Rightarrow> time \<Rightarrow> nat \<times> nat" where
  "reservation_time_range f i e = (f * 86400 + i, f * 86400 + e)"

fun range_overlaps :: "nat \<times> nat \<Rightarrow> nat \<times> nat \<Rightarrow> bool" where
  "range_overlaps (a, b) (c, d) = (a < b \<and> c < d \<and> a < d \<and> c < b)"

text \<open>\<^verbatim>\<open>WHERE (status NOT IN ('cancelled', 'rejected'))\<close>: the rows the constraint covers.\<close>

definition is_active :: "reservation \<Rightarrow> bool" where
  "is_active r = (status r \<noteq> Cancelled \<and> status r \<noteq> Rejected)"

text \<open>
  \<^verbatim>\<open>EXCLUDE USING gist (fecha WITH =, reservation_time_range(fecha, inicio, fin) WITH &&)\<close>:
  two covered rows conflict when every listed comparison holds between them.
\<close>

definition excl_conflict :: "reservation \<Rightarrow> reservation \<Rightarrow> bool" where
  "excl_conflict r x =
     (is_active r \<and> is_active x \<and> fecha r = fecha x \<and>
      range_overlaps (reservation_time_range (fecha r) (inicio r) (fin r))
                     (reservation_time_range (fecha x) (inicio x) (fin x)))"

definition reservations_no_overlap_excl :: "reservation list \<Rightarrow> reservation \<Rightarrow> bool" where
  "reservations_no_overlap_excl others r = (\<not> list_ex (excl_conflict r) others)"

text \<open>
  What the table checks on a row that is written, in PostgreSQL's order: the check
  constraints \<open>reservations_time_order_check\<close> and \<open>reservations_personas_positive_check\<close>
  first, then the exclusion constraint against the other rows.
\<close>

definition check_row :: "reservation list \<Rightarrow> reservation \<Rightarrow> pg_error option" where
  "check_row others r =
     (if \<not> inicio r < fin r then Some time_order_violation
      else if \<not> 0 < personas r then Some personas_violation
      else if \<not> reservations_no_overlap_excl others r then Some exclusion_violation
      else None)"

text \<open>\<^verbatim>\<open>INSERT INTO reservations\<close> of one row; the primary key is \<open>id\<close>.\<close>

definition sql_insert :: "reservation list \<Rightarrow> reservation \<Rightarrow> pg_error + reservation list" where
  "sql_insert tbl r =
     (if res_id r \<in> set (map res_id tbl) then Inl unique_violation
      else case check_row tbl r of Some e \<Rightarrow> Inl e | None \<Rightarrow> Inr (tbl @ [r]))"

text \<open>
  \<^verbatim>\<open>UPDATE reservations SET ... WHERE id = i\<close>: \<open>upd\<close> gives the new values of the
  columns that are set (never the primary key). A row that is written is checked against
  the rows it does not replace; no row with that id is an update of nothing.
\<close>

definition sql_update :: "reservation list \<Rightarrow> uuid \<Rightarrow> (reservation \<Rightarrow> reservation)
    \<Rightarrow> pg_error + reservation list" where
  "sql_update tbl i upd =
     (case find (\<lambda>r. res_id r = i) tbl of
        None \<Rightarrow> Inr tbl
      | Some r \<Rightarrow>
          (let r' = (upd r)\<lparr>res_id := i\<rparr> in
           case check_row (filter (\<lambda>x. res_id x \<noteq> i) tbl) r' of
             Some e \<Rightarrow> Inl e
           | None \<Rightarrow> Inr (map (\<lambda>x. if res_id x = i then r' else x) tbl)))"

text \<open>\<^verbatim>\<open>DELETE FROM reservations WHERE id = i\<close> (the out-of-band cleanup of expired rows).\<close>

definition sql_delete :: "reservation list \<Rightarrow> uuid \<Rightarrow> reservation list" where
  "sql_delete tbl i = filter (\<lambda>x. res_id x \<noteq> i) tbl"

text \<open>The tables the statements above can produce, starting from the empty table.\<close>

inductive reachable :: "reservation list \<Rightarrow> bool" where
  empty: "reachable []"
| insert: "reachable tbl \<Longrightarrow> sql_insert tbl r = Inr tbl' \<Longrightarrow> reachable tbl'"
| update: "reachable tbl \<Longrightarrow> sql_update tbl i upd = Inr tbl' \<Longrightarrow> reachable tbl'"
| delete: "reachable tbl \<Longrightarrow> reachable (sql_delete tbl i)"

text \<open>The property of a table that the constraints maintain.\<close>

definition overlapping :: "reservation \<Rightarrow> reservation \<Rightarrow> bool" where
  "overlapping r x = (inicio r < fin x \<and> inicio x < fin r)"

fun no_overlap :: "reservation list \<Rightarrow> bool" where
  "no_overlap [] = True"
| "no_overlap (r # rs) = (\<not> list_ex (excl_conflict r) rs \<and> no_overlap rs)"

definition well_formed :: "reservation list \<Rightarrow> bool" where
  "well_formed tbl =
     (distinct (map res_id tbl) \<and> list_all (\<lambda>r. inicio r < fin r \<and> 0 < personas r) tbl \<and> no_overlap tbl)"

section \<open>The world the operations act on\<close>

text \<open>
  The cancellations table (\<^verbatim>\<open>20251204000000_add_cancellations_table.sql\<close>, the audit log for
  reservation cancellations) and the blocked_dates table. The snapshot column holds the
  reservation row as it was read.
\<close>

record cancellation =
  reservation_id :: uuid
  cancelled_by :: "uuid option"
  reason :: "string option"
  previous_status :: reservation_status
  reservation_snapshot :: reservation

record blocked_date =
  b_fecha :: date
  b_motivo :: "string option"
  created_by :: "uuid option"
  start_time :: "time option"
  end_time :: "time option"

text \<open>The profiles table: one row per user of the authentication service, with the admin flag.\<close>

record profile =
  p_id :: uuid
  p_is_admin :: bool

text \<open>A request handed to the send-email function: its type, recipient, reservation and reason.\<close>

datatype email_request =
  EmailRequest (mail_type: string) (recipient: string) (about: uuid) (mail_reason: "string option")

datatype toast = ToastError string | ToastSuccess string

text \<open>
  The state that the operations read and change: the tables, the email requests and
  toasts issued so far, and the number of INSERT requests on reservations sent so far.
\<close>

record world =
  reservations :: "reservation list"
  cancellations :: "cancellation list"
  blocked_dates :: "blocked_date list"
  emails :: "email_request list"
  toasts :: "toast list"
  inserts_sent :: nat
  profiles :: "profile list"

section \<open>The cascade of a blocked date (database trigger)\<close>

text \<open>
  \<^verbatim>\<open>cancel_reservations_in_blocked_range()\<close>, fired after each insert into blocked_dates.
  The accented letter of the reason text is the character U+00F3. Concatenating a NULL
  \<open>motivo\<close> gives NULL, so \<^verbatim>\<open>COALESCE\<close> falls to the text without a reason.
\<close>

definition cancel_reason :: "blocked_date \<Rightarrow> string" where
  "cancel_reason b =
     (case b_motivo b of
        Some m \<Rightarrow> ''Fechas bloqueadas por administraci'' @ [CHR 0xF3] @ ''n: '' @ m
      | None \<Rightarrow> ''Fechas bloqueadas por administraci'' @ [CHR 0xF3] @ ''n'')"

definition block_overlaps :: "blocked_date \<Rightarrow> reservation \<Rightarrow> bool" where
  "block_overlaps b r =
     (case start_time b of
        None \<Rightarrow> (case end_time b of None \<Rightarrow> True | Some e \<Rightarrow> False)
      | Some s \<Rightarrow>
          (case end_time b of
             None \<Rightarrow> False
           | Some e \<Rightarrow>
               (s \<le> inicio r \<and> inicio r < e) \<or> (s < fin r \<and> fin r \<le> e) \<or>
               (inicio r \<le> s \<and> e \<le> fin r)))"

definition affected_reservations :: "blocked_date \<Rightarrow> reservation list \<Rightarrow> reservation list" where
  "affected_reservations b tbl =
     filter (\<lambda>r. fecha r = b_fecha b \<and> status r \<noteq> Cancelled \<and> status r \<noteq> Rejected \<and>
                 block_overlaps b r) tbl"

text \<open>\<^verbatim>\<open>COALESCE(admin_notes || E'\n\n', '') || cancel_reason\<close>.\<close>

definition append_note :: "string option \<Rightarrow> string \<Rightarrow> string" where
  "append_note notes txt = (case notes of None \<Rightarrow> txt | Some n \<Rightarrow> n @ [CHR 0x0A, CHR 0x0A] @ txt)"

text \<open>
  What the trigger depends on outside the tables: the service role key read from the vault
  (NULL when not configured) and whether \<^verbatim>\<open>http_post\<close> raises for a reservation. A raise
  is caught by the trigger's exception block and only logged.
\<close>

record trigger_env =
  service_role_key :: "string option"
  http_post_raises :: "uuid \<Rightarrow> bool"

definition notify_cancelled :: "trigger_env \<Rightarrow> blocked_date \<Rightarrow> reservation \<Rightarrow> world \<Rightarrow> world" where
  "notify_cancelled env b a w =
     (if service_role_key env \<noteq> None \<and> \<not> http_post_raises env (res_id a)
      then w\<lparr>emails := emails w @
                [EmailRequest ''reservation-cancelled'' (email a) (res_id a) (Some (cancel_reason b))]\<rparr>
      else w)"

definition cancel_update :: "blocked_date \<Rightarrow> reservation \<Rightarrow> reservation" where
  "cancel_update b r =
     r\<lparr>status := Cancelled,
       admin_notes := Some (append_note (admin_notes r) (cancel_reason b)),
       updated_by := created_by b\<rparr>"

text \<open>The loop over the rows selected when it starts; an error aborts the statement.\<close>

fun cancel_loop :: "trigger_env \<Rightarrow> blocked_date \<Rightarrow> reservation list \<Rightarrow> world \<Rightarrow> pg_error + world" where
  "cancel_loop env b [] w = Inr w"
| "cancel_loop env b (a # rest) w =
     (case sql_update (reservations w) (res_id a) (cancel_update b) of
        Inl e \<Rightarrow> Inl e
      | Inr tbl \<Rightarrow> cancel_loop env b rest (notify_cancelled env b a (w\<lparr>reservations := tbl\<rparr>)))"

definition cancel_reservations_in_blocked_range :: "trigger_env \<Rightarrow> blocked_date \<Rightarrow> world \<Rightarrow> pg_error + world" where
  "cancel_reservations_in_blocked_range env b w =
     cancel_loop env b (affected_reservations b (reservations w)) w"

definition blocked_dates_violation :: pg_error where
  "blocked_dates_violation =
     PgError ''23514'' ''new row for relation blocked_dates violates check constraint blocked_dates_time_order_check''"

text \<open>
  \<^verbatim>\<open>INSERT INTO blocked_dates\<close>: the check
  \<^verbatim>\<open>end_time IS NULL OR start_time IS NULL OR end_time > start_time\<close>, the new row, then
  the trigger; an error leaves the world as it was.
\<close>

definition blocked_dates_time_order_check :: "blocked_date \<Rightarrow> bool" where
  "blocked_dates_time_order_check b =
     (case end_time b of
        None \<Rightarrow> True
      | Some e \<Rightarrow> (case start_time b of None \<Rightarrow> True | Some s \<Rightarrow> s < e))"

definition insert_blocked_date :: "trigger_env \<Rightarrow> blocked_date \<Rightarrow> world \<Rightarrow> pg_error + world" where
  "insert_blocked_date env b w =
     (if \<not> blocked_dates_time_order_check b then Inl blocked_dates_violation
      else cancel_reservations_in_blocked_range env b (w\<lparr>blocked_dates := blocked_dates w @ [b]\<rparr>))"

section \<open>The client library (lib/supabase)\<close>

subsection \<open>sanitizeInput\<close>

text \<open>
  Strings are lists of characters with codes below 256. \<open>\w\<close> is a letter, a digit or the
  underscore; with the \<open>i\<close> flag a pattern letter also matches its capital.
  \<open>matches_word w s\<close>: \<open>s\<close> starts with \<open>w\<close>, ignoring case, and a word boundary follows.
  \<open>remove_word w prev s\<close> is \<^verbatim>\<open>s.replace(/\bw\b/gi, '')\<close>, scanning from the left, where
  \<open>prev\<close> tells whether the character before \<open>s\<close> is a word character; behind a match
  that character is the last letter of the word.
  \<open>remove_pair a b s\<close> is \<^verbatim>\<open>s.replace(/ab/g, '')\<close> for two literal characters.
\<close>

definition is_word_char :: "char \<Rightarrow> bool" where
  "is_word_char c =
     (c \<in> set ''abcdefghijklmnopqrstuvwxyzABCDEFGHIJKLMNOPQRSTUVWXYZ0123456789_'')"

definition lower_ascii :: "char \<Rightarrow> char" where
  "lower_ascii c =
     (case map_of (zip ''ABCDEFGHIJKLMNOPQRSTUVWXYZ'' ''abcdefghijklmnopqrstuvwxyz'') c of
        Some l \<Rightarrow> l
      | None \<Rightarrow> c)"

fun matches_word :: "string \<Rightarrow> string \<Rightarrow> bool" where
  "matches_word [] [] = True"
| "matches_word [] (c # s) = (\<not> is_word_char c)"
| "matches_word (p # ps) [] = False"
| "matches_word (p # ps) (c # s) = (lower_ascii c = p \<and> matches_word ps s)"

fun remove_pair :: "char \<Rightarrow> char \<Rightarrow> string \<Rightarrow> string" where
  "remove_pair a b (x # y # s) =
     (if x = a \<and> y = b then remove_pair a b s else x # remove_pair a b (y # s))"
| "remove_pair a b s = s"

fun remove_word :: "string \<Rightarrow> bool \<Rightarrow> string \<Rightarrow> string" where
  "remove_word w prev [] = []"
| "remove_word w prev (c # s) =
     (if w \<noteq> [] \<and> \<not> prev \<and> matches_word w (c # s)
      then remove_word w True (drop (length w) (c # s))
      else c # remove_word w (is_word_char c) s)"

text \<open>\<^verbatim>\<open>trim()\<close>: tab, line feed, vertical tab, form feed, carriage return, space, no-break space.\<close>

definition is_space :: "char \<Rightarrow> bool" where
  "is_space c = (c \<in> set [CHR 0x09, CHR 0x0A, CHR 0x0B, CHR 0x0C, CHR 0x0D, CHR 0x20, CHR 0xA0])"

definition trim :: "string \<Rightarrow> string" where
  "trim s = rev (dropWhile is_space (rev (dropWhile is_space s)))"

text \<open>The argument is \<open>None\<close> for \<^verbatim>\<open>null\<close> and \<^verbatim>\<open>undefined\<close>.\<close>

definition sanitizeInput :: "string option \<Rightarrow> string" where
  "sanitizeInput input =
     (case input of
        None \<Rightarrow> []
      | Some s \<Rightarrow>
          trim (remove_word ''select'' False (remove_word ''insert'' False
            (remove_word ''update'' False (remove_word ''delete'' False (remove_word ''drop'' False
              (remove_pair (CHR ''*'') (CHR ''/'') (remove_pair (CHR ''/'') (CHR ''*'')
                (remove_pair (CHR ''-'') (CHR ''-'')
                  (filter (\<lambda>c. c \<noteq> CHR 0x27 \<and> c \<noteq> CHR 0x22 \<and> c \<noteq> CHR '';'') s))))))))))"

subsection \<open>The environment of a client call\<close>

text \<open>
  What a call depends on besides the tables. \<open>auth_uid\<close> is the user whose token the
  requests carry, \<^verbatim>\<open>auth.uid()\<close> in the policies of the record store; it is \<open>None\<close> for
  an anonymous visitor. \<open>session_user\<close> is the id that
  \<^verbatim>\<open>supabase.auth.getUser()\<close> yields (\<open>None\<close> when there is no user or the call throws).
  A \<open>fault\<close> is a failure that the record store reports for a request without executing it
  (network, policy), per reservation id or token where a function issues the request in a
  loop. \<open>fresh_id\<close> and \<open>fresh_token\<close> are the values of \<^verbatim>\<open>gen_random_uuid()\<close> for the
  next inserted row, \<open>now\<close> is the clock, and \<open>postgrest_error_is_Error\<close> tells whether the
  store's error objects are instances of \<^verbatim>\<open>Error\<close> in the installed client library.
\<close>

record client_env =
  session_user :: "uuid option"
  select_fault :: "string \<Rightarrow> pg_error option"
  audit_fault :: "uuid \<Rightarrow> bool"
  update_fault :: "string \<Rightarrow> pg_error option"
  query_fault :: "pg_error option"
  insert_fault :: "pg_error option"
  fresh_id :: uuid
  fresh_token :: uuid
  now :: timestamptz
  postgrest_error_is_Error :: bool
  auth_uid :: "uuid option"

text \<open>What a function throws: an error object of the record store, or \<^verbatim>\<open>new Error(message)\<close>.\<close>

datatype js_error = Postgrest pg_error | JsError string

definition not_singular :: pg_error where
  "not_singular = PgError ''PGRST116'' ''JSON object requested, multiple (or no) rows returned''"

text \<open>\<^verbatim>\<open>.select('*').eq('id', id).single()\<close>: the row, or an error unless exactly one row matches.\<close>

definition select_single :: "client_env \<Rightarrow> reservation list \<Rightarrow> uuid \<Rightarrow> pg_error + reservation" where
  "select_single env tbl i =
     (case select_fault env i of
        Some e \<Rightarrow> Inl e
      | None \<Rightarrow> (case filter (\<lambda>r. res_id r = i) tbl of [r] \<Rightarrow> Inr r | _ \<Rightarrow> Inl not_singular))"

text \<open>A string in a condition is true when it is neither undefined nor empty.\<close>

definition truthy :: "string option \<Rightarrow> bool" where
  "truthy x = (case x of None \<Rightarrow> False | Some s \<Rightarrow> s \<noteq> [])"

subsection \<open>Row-level security and foreign keys\<close>

text \<open>
  The policies of the migrations admit every caller to SELECT and INSERT on reservations,
  and admit to UPDATE on reservations and to INSERT on cancellations only a caller for whom
  \<^verbatim>\<open>EXISTS (SELECT 1 FROM profiles WHERE profiles.id = auth.uid() AND profiles.is_admin = true)\<close>
  holds. An UPDATE by any other caller finds no row and reports no error; an INSERT by any
  other caller is refused. \<open>reservations.updated_by\<close> and \<open>cancellations.cancelled_by\<close>
  reference \<open>profiles(id)\<close>, and \<open>cancellations.reservation_id\<close> references
  \<open>reservations(id)\<close>; a foreign key is checked after the constraints of the table, on
  an update only when the referencing column changes.
\<close>

definition is_admin_uid :: "profile list \<Rightarrow> uuid option \<Rightarrow> bool" where
  "is_admin_uid ps uid =
     (case uid of None \<Rightarrow> False | Some u \<Rightarrow> list_ex (\<lambda>p. p_id p = u \<and> p_is_admin p) ps)"

definition references_profile :: "profile list \<Rightarrow> uuid option \<Rightarrow> bool" where
  "references_profile ps ref =
     (case ref of None \<Rightarrow> True | Some u \<Rightarrow> list_ex (\<lambda>p. p_id p = u) ps)"

definition foreign_key_violation :: pg_error where
  "foreign_key_violation =
     PgError ''23503'' ''insert or update on table violates foreign key constraint''"

text \<open>
  \<^verbatim>\<open>.from('reservations').update(...).eq('id', i)\<close> as the caller of \<open>env\<close>: the table
  after the request, or the error.
\<close>

definition update_reservation :: "client_env \<Rightarrow> uuid \<Rightarrow> (reservation \<Rightarrow> reservation) \<Rightarrow> world
    \<Rightarrow> pg_error + reservation list" where
  "update_reservation env i upd w =
     (if \<not> is_admin_uid (profiles w) (auth_uid env) then Inr (reservations w)
      else case sql_update (reservations w) i upd of
             Inl e \<Rightarrow> Inl e
           | Inr tbl \<Rightarrow>
               if list_all (\<lambda>r. updated_by (upd r) = updated_by r \<or>
                                 references_profile (profiles w) (updated_by (upd r)))
                    (filter (\<lambda>r. res_id r = i) (reservations w))
               then Inr tbl else Inl foreign_key_violation)"

text \<open>
  \<^verbatim>\<open>.from('cancellations').insert([c])\<close> as the caller of \<open>env\<close>. The caller of this
  request ignores its result, so a refused insert only leaves the table as it was.
\<close>

definition insert_cancellation :: "client_env \<Rightarrow> cancellation \<Rightarrow> world \<Rightarrow> world" where
  "insert_cancellation env c w =
     (if audit_fault env (reservation_id c) then w
      else if \<not> is_admin_uid (profiles w) (auth_uid env) then w
      else if \<not> list_ex (\<lambda>r. res_id r = reservation_id c) (reservations w) then w
      else if \<not> references_profile (profiles w) (cancelled_by c) then w
      else w\<lparr>cancellations := cancellations w @ [c]\<rparr>)"

subsection \<open>deleteReservation\<close>

text \<open>
  The values written by the soft cancellation. \<open>status\<close> is NOT NULL, so
  \<^verbatim>\<open>reservation?.status || ...\<close> is the status read.
\<close>

text \<open>\<^verbatim>\<open>adminId = userData?.user?.id || null\<close>, and \<^verbatim>\<open>null\<close> when the call throws.\<close>

definition acting_admin :: "client_env \<Rightarrow> uuid option" where
  "acting_admin env = (if truthy (session_user env) then session_user env else None)"

definition audit_row :: "uuid \<Rightarrow> uuid option \<Rightarrow> string option \<Rightarrow> reservation \<Rightarrow> cancellation" where
  "audit_row i adminId why reservation =
     \<lparr>reservation_id = i,
      cancelled_by = adminId,
      reason = (if sanitizeInput why = [] then None else Some (sanitizeInput why)),
      previous_status = status reservation,
      reservation_snapshot = reservation\<rparr>"

definition updateObject :: "uuid option \<Rightarrow> string option \<Rightarrow> reservation \<Rightarrow> reservation" where
  "updateObject adminId why r =
     (let r1 = r\<lparr>status := Cancelled,
                  admin_notes := Some (if truthy why then ''Motivo: '' @ sanitizeInput why
                                       else ''Motivo: No especificado'')\<rparr>
      in if truthy adminId then r1\<lparr>updated_by := adminId\<rparr> else r1)"

definition deleteReservation :: "client_env \<Rightarrow> uuid \<Rightarrow> string option \<Rightarrow> world \<Rightarrow> (js_error + bool) \<times> world" where
  "deleteReservation env i why w =
     (if i = [] then (Inl (JsError ''No reservation ID provided for deletion''), w)
      else case select_single env (reservations w) i of
        Inl getError \<Rightarrow> (Inl (Postgrest getError), w)
      | Inr reservation \<Rightarrow>
          (let adminId = acting_admin env;
               w1 = insert_cancellation env (audit_row i adminId why reservation) w
           in case (case update_fault env i of
                      Some e \<Rightarrow> Inl e
                    | None \<Rightarrow> update_reservation env i (updateObject adminId why) w1) of
                Inl updateError \<Rightarrow> (Inl (Postgrest updateError), w1)
              | Inr tbl \<Rightarrow>
                  (Inr True,
                   w1\<lparr>reservations := tbl,
                      emails := emails w1 @
                        [EmailRequest ''reservation-cancelled'' (email reservation) i
                           (Some (if truthy why then sanitizeInput why else ''No especificado''))]\<rparr>)))"

subsection \<open>blockTimeSlot and unblockTimeSlot\<close>

text \<open>
  The date and the two times are the DATE and TIME values that the record store reads from
  the arguments. The first query is
  \<^verbatim>\<open>.not('status','eq','cancelled').eq('fecha', date).or(`inicio.gte.${startTime},fin.lte.${endTime}`)\<close>.
\<close>

definition existingReservations :: "date \<Rightarrow> time \<Rightarrow> time \<Rightarrow> reservation list \<Rightarrow> reservation list" where
  "existingReservations d startTime endTime tbl =
     filter (\<lambda>r. status r \<noteq> Cancelled \<and> fecha r = d \<and> (startTime \<le> inicio r \<or> fin r \<le> endTime)) tbl"

definition cancellationReason :: "string \<Rightarrow> string" where
  "cancellationReason why =
     ''La reserva fue cancelada porque el administrador bloque'' @ [CHR 0xF3] @ '' este horario: '' @ why"

text \<open>The loop: a cancellation that throws is skipped, with whatever it had written.\<close>

fun cancel_existing :: "client_env \<Rightarrow> string \<Rightarrow> reservation list \<Rightarrow> world \<Rightarrow> world" where
  "cancel_existing env why [] w = w"
| "cancel_existing env why (reservation # rest) w =
     cancel_existing env why rest
       (if responsable reservation \<noteq> ''Admin''
        then snd (deleteReservation env (res_id reservation) (Some why) w)
        else w)"

text \<open>
  An INSERT request on reservations. Columns that the request leaves out have their
  defaults: a fresh id and confirmation token, status pending, not confirmed, the rest NULL.
\<close>

definition insert_reservation :: "client_env \<Rightarrow> reservation \<Rightarrow> world \<Rightarrow> (pg_error + reservation) \<times> world" where
  "insert_reservation env r w =
     (let w1 = w\<lparr>inserts_sent := inserts_sent w + 1\<rparr>
      in case insert_fault env of
           Some e \<Rightarrow> (Inl e, w1)
         | None \<Rightarrow>
             (case sql_insert (reservations w1) r of
                Inl e \<Rightarrow> (Inl e, w1)
              | Inr tbl \<Rightarrow> (Inr r, w1\<lparr>reservations := tbl\<rparr>)))"

definition blockedReservation :: "client_env \<Rightarrow> date \<Rightarrow> time \<Rightarrow> time \<Rightarrow> string \<Rightarrow> reservation" where
  "blockedReservation env d startTime endTime why =
     \<lparr>res_id = fresh_id env,
      responsable = ''Admin'',
      email = ''admin@system.com'',
      motivo = ''BLOQUEADO: '' @ why,
      fecha = d,
      inicio = startTime,
      fin = endTime,
      personas = 0,
      status = Pending,
      admin_notes = None,
      confirmed = False,
      confirmation_token = Some (fresh_token env),
      token_expires_at = None,
      updated_by = None\<rparr>"

definition blockTimeSlot :: "client_env \<Rightarrow> date \<Rightarrow> time \<Rightarrow> time \<Rightarrow> string \<Rightarrow> world
    \<Rightarrow> (js_error + reservation) \<times> world" where
  "blockTimeSlot env d startTime endTime why w =
     (case query_fault env of
        Some queryError \<Rightarrow> (Inl (Postgrest queryError), w)
      | None \<Rightarrow>
          (let w1 = cancel_existing env (cancellationReason why)
                      (existingReservations d startTime endTime (reservations w)) w
           in case insert_reservation env (blockedReservation env d startTime endTime why) w1 of
                (Inl insertError, w2) \<Rightarrow> (Inl (Postgrest insertError), w2)
              | (Inr row, w2) \<Rightarrow> (Inr row, w2)))"

definition unblockTimeSlot :: "client_env \<Rightarrow> uuid \<Rightarrow> world \<Rightarrow> (js_error + bool) \<times> world" where
  "unblockTimeSlot env blockId w = deleteReservation env blockId (Some ''Time slot unblocked by admin'') w"

subsection \<open>checkAvailability\<close>

text \<open>
  The record store writes a TIME as \<open>HH:MM:SS\<close>; the function compares these strings with
  its two arguments by the order of strings (character by character, a prefix first).
  A row's \<open>inicio\<close> and \<open>fin\<close> are never empty, so
  \<^verbatim>\<open>reservation.inicio || reservation.horaInicio\<close> is \<open>inicio\<close>.
\<close>

definition pad2 :: "nat \<Rightarrow> string" where
  "pad2 n = [''0123456789'' ! (n div 10 mod 10), ''0123456789'' ! (n mod 10)]"

definition time_text :: "time \<Rightarrow> string" where
  "time_text t = pad2 (t div 3600) @ '':'' @ pad2 (t div 60 mod 60) @ '':'' @ pad2 (t mod 60)"

definition hasOverlap :: "string \<Rightarrow> string \<Rightarrow> reservation \<Rightarrow> bool" where
  "hasOverlap startTime endTime reservation =
     (let reservationStart = time_text (inicio reservation);
          reservationEnd = time_text (fin reservation)
      in (reservationStart \<le> startTime \<and> startTime < reservationEnd) \<or>
         (reservationStart < endTime \<and> endTime \<le> reservationEnd) \<or>
         (startTime \<le> reservationStart \<and> reservationEnd \<le> endTime))"

definition checkAvailability :: "client_env \<Rightarrow> date \<Rightarrow> string \<Rightarrow> string \<Rightarrow> string option \<Rightarrow> world \<Rightarrow> bool" where
  "checkAvailability env d startTime endTime excludeId w =
     (case query_fault env of
        Some e \<Rightarrow> False
      | None \<Rightarrow>
          (let fetched = filter (\<lambda>r. status r \<noteq> Cancelled \<and> fecha r = d) (reservations w);
               relevantReservations =
                 (if truthy excludeId then filter (\<lambda>res. Some (res_id res) \<noteq> excludeId) fetched
                  else fetched)
           in \<not> list_ex (hasOverlap startTime endTime) relevantReservations))"

text \<open>\<^verbatim>\<open>doTimeRangesOverlap\<close> of the date and time utilities, on the same strings.\<close>

definition doTimeRangesOverlap :: "string \<Rightarrow> string \<Rightarrow> string \<Rightarrow> string \<Rightarrow> bool" where
  "doTimeRangesOverlap start1 end1 start2 end2 = (start1 < end2 \<and> start2 < end1)"

section \<open>Creating and confirming a reservation\<close>

subsection \<open>addReservation (useReservationMutations)\<close>

text \<open>The fields of the form; date and times as the DATE and TIME values the record store reads.\<close>

record new_reservation =
  n_responsable :: string
  n_email :: string
  n_motivo :: string
  n_fecha :: date
  n_inicio :: time
  n_fin :: time
  n_personas :: int

definition insertData :: "client_env \<Rightarrow> new_reservation \<Rightarrow> reservation" where
  "insertData env newReservation =
     \<lparr>res_id = fresh_id env,
      responsable = n_responsable newReservation,
      email = n_email newReservation,
      motivo = n_motivo newReservation,
      fecha = n_fecha newReservation,
      inicio = n_inicio newReservation,
      fin = n_fin newReservation,
      personas = n_personas newReservation,
      status = Pending,
      admin_notes = None,
      confirmed = False,
      confirmation_token = Some (fresh_token env),
      token_expires_at = Some (now env + 24 * 60 * 60 * 1000),
      updated_by = None\<rparr>"

text \<open>\<^verbatim>\<open>message.includes(pat)\<close>.\<close>

fun starts_with :: "string \<Rightarrow> string \<Rightarrow> bool" where
  "starts_with s [] = True"
| "starts_with [] (p # ps) = False"
| "starts_with (c # s) (p # ps) = (c = p \<and> starts_with s ps)"

fun includes_str :: "string \<Rightarrow> string \<Rightarrow> bool" where
  "includes_str [] pat = (pat = [])"
| "includes_str (c # s) pat = (starts_with (c # s) pat \<or> includes_str s pat)"

definition is_overlap_violation :: "pg_error \<Rightarrow> bool" where
  "is_overlap_violation error =
     (code error = ''23P01'' \<or> includes_str (message error) ''reservations_no_overlap_excl'')"

definition SLOT_TAKEN_TOAST :: toast where
  "SLOT_TAKEN_TOAST =
     ToastError ''Este horario ya fue reservado por otra persona. Por favor, elige otro horario.''"

definition CREATE_ERROR_TOAST :: toast where
  "CREATE_ERROR_TOAST = ToastError ''Error al crear la reserva''"

text \<open>The catch clause: \<^verbatim>\<open>error instanceof Error && error.message === 'SLOT_TAKEN'\<close>.\<close>

definition is_slot_taken :: "client_env \<Rightarrow> js_error \<Rightarrow> bool" where
  "is_slot_taken env thrown =
     (case thrown of
        JsError m \<Rightarrow> m = ''SLOT_TAKEN''
      | Postgrest e \<Rightarrow> postgrest_error_is_Error env \<and> message e = ''SLOT_TAKEN'')"

definition addReservation :: "client_env \<Rightarrow> new_reservation \<Rightarrow> world \<Rightarrow> reservation option \<times> world" where
  "addReservation env newReservation w =
     (case insert_reservation env (insertData env newReservation) w of
        (Inl error, w1) \<Rightarrow>
          (let thrown = (if is_overlap_violation error then JsError ''SLOT_TAKEN'' else Postgrest error)
           in (None, w1\<lparr>toasts := toasts w1 @
                         [if is_slot_taken env thrown then SLOT_TAKEN_TOAST else CREATE_ERROR_TOAST]\<rparr>))
      | (Inr row, w1) \<Rightarrow>
          (Some row,
           w1\<lparr>emails := emails w1 @ [EmailRequest ''confirm-reservation'' (email row) (res_id row) None]\<rparr>))"

subsection \<open>confirmReservation (ConfirmReservationPage)\<close>

datatype confirm_status = Loading | Success | ErrorStatus | Expired

text \<open>
  The request
  \<^verbatim>\<open>.update({ confirmed: true }).eq('confirmation_token', token).gt('token_expires_at', now).select().maybeSingle()\<close>:
  the rows it selects, and the update of each. The update policy of reservations shows
  rows only to an admin caller, so for any other caller the request selects nothing.
  A comparison with a NULL expiry selects nothing. More than one selected row is the error
  of a singular request, which changes nothing; no selected row is neither data nor error.
\<close>

definition unexpired_with_token :: "string \<Rightarrow> timestamptz \<Rightarrow> reservation \<Rightarrow> bool" where
  "unexpired_with_token token t r =
     (confirmation_token r = Some token \<and>
      (case token_expires_at r of None \<Rightarrow> False | Some x \<Rightarrow> t < x))"

fun update_all :: "reservation list \<Rightarrow> uuid list \<Rightarrow> (reservation \<Rightarrow> reservation)
    \<Rightarrow> pg_error + reservation list" where
  "update_all tbl [] upd = Inr tbl"
| "update_all tbl (i # rest) upd =
     (case sql_update tbl i upd of Inl e \<Rightarrow> Inl e | Inr tbl' \<Rightarrow> update_all tbl' rest upd)"

definition confirm_update :: "client_env \<Rightarrow> string \<Rightarrow> world
    \<Rightarrow> pg_error + (reservation list \<times> reservation option)" where
  "confirm_update env token w =
     (case update_fault env token of
        Some e \<Rightarrow> Inl e
      | None \<Rightarrow>
          (let hit = (if is_admin_uid (profiles w) (auth_uid env)
                      then filter (unexpired_with_token token (now env)) (reservations w)
                      else [])
           in if 1 < length hit then Inl not_singular
              else case update_all (reservations w) (map res_id hit) (\<lambda>r. r\<lparr>confirmed := True\<rparr>) of
                     Inl e \<Rightarrow> Inl e
                   | Inr tbl' \<Rightarrow>
                       Inr (tbl', case hit of [] \<Rightarrow> None | r # _ \<Rightarrow> Some (r\<lparr>confirmed := True\<rparr>))))"

text \<open>The second request, \<^verbatim>\<open>.select('*').eq('confirmation_token', token).maybeSingle()\<close>.\<close>

definition expiredData :: "client_env \<Rightarrow> string \<Rightarrow> reservation list \<Rightarrow> reservation option" where
  "expiredData env token tbl =
     (case select_fault env token of
        Some e \<Rightarrow> None
      | None \<Rightarrow> (case filter (\<lambda>r. confirmation_token r = Some token) tbl of [r] \<Rightarrow> Some r | _ \<Rightarrow> None))"

definition confirmReservation :: "client_env \<Rightarrow> string option \<Rightarrow> world \<Rightarrow> confirm_status \<times> world" where
  "confirmReservation env token w =
     (case token of
        None \<Rightarrow> (ErrorStatus, w)
      | Some t \<Rightarrow>
          if t = [] then (ErrorStatus, w)
          else case confirm_update env t w of
                 Inr (tbl', Some updateData) \<Rightarrow> (Success, w\<lparr>reservations := tbl'\<rparr>)
               | _ \<Rightarrow>
                   (case expiredData env t (reservations w) of
                      Some r \<Rightarrow> (Expired, w)
                    | None \<Rightarrow> (ErrorStatus, w)))"

section \<open>The admin-profile lookup of the login flow\<close>

text \<open>
  A promise that the function awaits either fulfils with a value or rejects, after some
  milliseconds, or never settles. The timer of \<^verbatim>\<open>timeoutPromise\<close> starts when the function
  starts; the profiles query is issued once the client is there, so it settles at the sum
  of the two delays, and wins the race when that is below the timeout.
\<close>

datatype 'a promise = Fulfils nat 'a | Rejects nat | Never

record auth_env =
  set_session :: "unit promise"
  profiles_query :: "(pg_error + bool option) promise"
  get_user :: "string option promise"
  profiles_insert :: "pg_error option promise"

definition PROFILE_TIMEOUT_MS :: nat where
  "PROFILE_TIMEOUT_MS = 3000"

definition ends_with :: "string \<Rightarrow> string \<Rightarrow> bool" where
  "ends_with s suffix = starts_with (rev s) (rev suffix)"

text \<open>
  The branch for a missing profile: the user's email decides \<open>isAdmin\<close>, and the profile is
  inserted. Neither call is raced against the timer.
\<close>

definition create_profile :: "auth_env \<Rightarrow> bool option" where
  "create_profile env =
     (case get_user env of
        Never \<Rightarrow> None
      | Rejects _ \<Rightarrow> Some False
      | Fulfils _ user_email \<Rightarrow>
          (let isAdmin = (case user_email of None \<Rightarrow> False | Some e \<Rightarrow> ends_with e ''@fiuna.edu.py'')
           in case profiles_insert env of
                Never \<Rightarrow> None
              | Rejects _ \<Rightarrow> Some False
              | Fulfils _ (Some insertError) \<Rightarrow> Some False
              | Fulfils _ None \<Rightarrow> Some isAdmin))"

text \<open>The result is \<open>None\<close> when the function never returns.\<close>

definition fetchUserProfile :: "auth_env \<Rightarrow> uuid \<Rightarrow> string option \<Rightarrow> bool option" where
  "fetchUserProfile env userId accessToken =
     (case (if truthy accessToken then set_session env else Fulfils 0 ()) of
        Never \<Rightarrow> None
      | Rejects _ \<Rightarrow> Some False
      | Fulfils d _ \<Rightarrow>
          (case profiles_query env of
             Never \<Rightarrow> Some False
           | Rejects _ \<Rightarrow> Some False
           | Fulfils t reply \<Rightarrow>
               if \<not> d + t < PROFILE_TIMEOUT_MS then Some False
               else case reply of
                      Inl profileError \<Rightarrow> Some False
                    | Inr None \<Rightarrow> create_profile env
                    | Inr (Some is_admin) \<Rightarrow> Some is_admin))"

section \<open>Sample data\<close>

text \<open>
  A reservation on 2025-08-10 (day 20310) with a prior admin note, a world that holds
  given reservations and the profiles of two admins, environments in which no request
  fails (the anonymous visitor \<open>quiet\<close> and the signed-in admin \<open>signed_in\<close>), and the
  block of 08:00 to 12:00 on that day with reason "maintenance".
\<close>

definition sample :: "uuid \<Rightarrow> string \<Rightarrow> time \<Rightarrow> time \<Rightarrow> reservation_status \<Rightarrow> reservation" where
  "sample i who s e st =
     \<lparr>res_id = i, responsable = who, email = ''ana@fiuna.edu.py'', motivo = ''asado'',
      fecha = 20310, inicio = s, fin = e, personas = 12, status = st,
      admin_notes = Some ''VIP'', confirmed = False, confirmation_token = Some ''tok-1'',
      token_expires_at = Some 90000000, updated_by = Some ''admin-0''\<rparr>"

definition world_of :: "reservation list \<Rightarrow> world" where
  "world_of tbl =
     \<lparr>reservations = tbl, cancellations = [], blocked_dates = [], emails = [], toasts = [],
      inserts_sent = 0,
      profiles = [\<lparr>p_id = ''admin-0'', p_is_admin = True\<rparr>, \<lparr>p_id = ''admin-1'', p_is_admin = True\<rparr>]\<rparr>"

definition quiet :: client_env where
  "quiet =
     \<lparr>session_user = None, select_fault = (\<lambda>_. None), audit_fault = (\<lambda>_. False),
      update_fault = (\<lambda>_. None), query_fault = None, insert_fault = None,
      fresh_id = ''r9'', fresh_token = ''tok-9'', now = 3600000,
      postgrest_error_is_Error = True, auth_uid = None\<rparr>"

definition signed_in :: client_env where
  "signed_in = quiet\<lparr>session_user := Some ''admin-1'', auth_uid := Some ''admin-1''\<rparr>"

definition trigger_quiet :: trigger_env where
  "trigger_quiet = \<lparr>service_role_key = Some ''key'', http_post_raises = (\<lambda>_. False)\<rparr>"

definition maintenance :: blocked_date where
  "maintenance =
     \<lparr>b_fecha = 20310, b_motivo = Some ''maintenance'', created_by = Some ''admin-1'',
      start_time = Some 28800, end_time = Some 43200\<rparr>"

section \<open>Auxiliary notions of the proofs\<close>

text \<open>An update of one row that keeps its date, interval and party size and activates nothing.\<close>

definition harmless :: "(reservation \<Rightarrow> reservation) \<Rightarrow> reservation \<Rightarrow> bool" where
  "harmless upd r =
     (inicio (upd r) = inicio r \<and> fin (upd r) = fin r \<and> fecha (upd r) = fecha r \<and>
      personas (upd r) = personas r \<and> (is_active (upd r) \<longrightarrow> is_active r))"

section \<open>Overlap prevention\<close>

lemma excl_conflict_sym: "excl_conflict r x = excl_conflict x r"
  by (auto simp: excl_conflict_def reservation_time_range_def)

lemma no_overlap_append:
  "no_overlap (xs @ ys) =
     (no_overlap xs \<and> no_overlap ys \<and> (\<forall>x\<in>set xs. \<forall>y\<in>set ys. \<not> excl_conflict x y))"
  by (induction xs) (auto simp: list_ex_iff)

lemma no_overlap_filter: "no_overlap tbl \<Longrightarrow> no_overlap (filter P tbl)"
  by (induction tbl) (auto simp: list_ex_iff)

lemma no_overlap_pairs:
  "distinct (map res_id tbl) \<Longrightarrow> no_overlap tbl \<Longrightarrow> r \<in> set tbl \<Longrightarrow> x \<in> set tbl \<Longrightarrow>
   res_id r \<noteq> res_id x \<Longrightarrow> \<not> excl_conflict r x"
proof (induction tbl)
  case Nil
  then show ?case by simp
next
  case (Cons a tbl)
  then show ?case
    using excl_conflict_sym by (auto simp: list_ex_iff)
qed

lemma no_overlap_replace:
  assumes "no_overlap tbl"
    and "\<forall>x\<in>set tbl. res_id x \<noteq> i \<longrightarrow> \<not> excl_conflict r' x"
    and "distinct (map res_id tbl)"
  shows "no_overlap (map (\<lambda>x. if res_id x = i then r' else x) tbl)"
  using assms
proof (induction tbl)
  case Nil
  then show ?case by simp
next
  case (Cons a tbl)
  have tl: "no_overlap (map (\<lambda>x. if res_id x = i then r' else x) tbl)"
    using Cons by simp
  show ?case
  proof (cases "res_id a = i")
    case True
    then have "\<forall>x\<in>set tbl. res_id x \<noteq> i" using Cons.prems(3) by (auto simp: image_iff)
    then show ?thesis using True tl Cons.prems(2) by (auto simp: list_ex_iff)
  next
    case False
    then have "\<not> excl_conflict a r'" using Cons.prems(2) excl_conflict_sym by auto
    then show ?thesis using False tl Cons.prems(1) by (auto simp: list_ex_iff)
  qed
qed

lemma check_row_None:
  "check_row others r = None \<Longrightarrow>
   inicio r < fin r \<and> 0 < personas r \<and> (\<forall>x\<in>set others. \<not> excl_conflict r x)"
  by (auto simp: check_row_def reservations_no_overlap_excl_def list_ex_iff split: if_splits)

lemma well_formed_insert:
  assumes "well_formed tbl" and "sql_insert tbl r = Inr tbl'"
  shows "well_formed tbl'"
proof -
  from assms(2) have fresh: "res_id r \<notin> set (map res_id tbl)"
    and ok: "check_row tbl r = None" and tbl': "tbl' = tbl @ [r]"
    by (auto simp: sql_insert_def split: if_splits option.splits)
  from check_row_None [OF ok] have "\<forall>x\<in>set tbl. \<not> excl_conflict x r"
    using excl_conflict_sym by blast
  then show ?thesis
    using assms(1) fresh check_row_None [OF ok]
    by (auto simp: well_formed_def tbl' no_overlap_append)
qed

lemma well_formed_update:
  assumes "well_formed tbl" and "sql_update tbl i upd = Inr tbl'"
  shows "well_formed tbl'"
proof (cases "find (\<lambda>r. res_id r = i) tbl")
  case None
  then show ?thesis using assms by (simp add: sql_update_def)
next
  case (Some r)
  define r' where "r' = (upd r)\<lparr>res_id := i\<rparr>"
  from assms(2) Some have ok: "check_row (filter (\<lambda>x. res_id x \<noteq> i) tbl) r' = None"
    and tbl': "tbl' = map (\<lambda>x. if res_id x = i then r' else x) tbl"
    by (auto simp: sql_update_def r'_def Let_def split: option.splits)
  have ids: "map res_id tbl' = map res_id tbl"
    by (simp add: tbl' r'_def comp_def cong: map_cong)
  have "no_overlap tbl'"
    unfolding tbl'
    using assms(1) check_row_None [OF ok]
    by (intro no_overlap_replace) (auto simp: well_formed_def)
  moreover have "list_all (\<lambda>r. inicio r < fin r \<and> 0 < personas r) tbl'"
    using assms(1) check_row_None [OF ok]
    by (auto simp: well_formed_def tbl' list_all_iff)
  ultimately show ?thesis
    using assms(1) ids by (simp add: well_formed_def)
qed

lemma well_formed_delete: "well_formed tbl \<Longrightarrow> well_formed (sql_delete tbl i)"
  by (auto simp: well_formed_def sql_delete_def distinct_map_filter no_overlap_filter list_all_iff)

lemma reachable_well_formed: "reachable tbl \<Longrightarrow> well_formed tbl"
proof (induction rule: reachable.induct)
  case empty
  then show ?case by (simp add: well_formed_def)
next
  case (insert tbl r tbl')
  then show ?case using well_formed_insert by blast
next
  case (update tbl i upd tbl')
  then show ?case using well_formed_update by blast
next
  case (delete tbl i)
  then show ?case using well_formed_delete by blast
qed

text \<open>
  C1. In every table that inserts, updates and deletes can produce, two distinct rows on the
  same date whose status is neither cancelled nor rejected have non-overlapping intervals
  \<open>[inicio, fin)\<close>; and an insert whose row overlaps such an existing row on its date is
  rejected with the exclusion violation (or an earlier constraint error), never applied.
\<close>

theorem C1_no_overlap_invariant:
  assumes "reachable tbl"
  shows "(\<forall>r\<in>set tbl. \<forall>x\<in>set tbl.
            res_id r \<noteq> res_id x \<and> fecha r = fecha x \<and> is_active r \<and> is_active x
            \<longrightarrow> \<not> overlapping r x)
         \<and> (\<forall>r x. x \<in> set tbl \<and> fecha r = fecha x \<and> is_active r \<and> is_active x \<and> overlapping r x
              \<longrightarrow> (\<exists>e. sql_insert tbl r = Inl e))"
proof (intro conjI ballI allI impI)
  fix r x
  assume rx: "r \<in> set tbl" "x \<in> set tbl"
    and h: "res_id r \<noteq> res_id x \<and> fecha r = fecha x \<and> is_active r \<and> is_active x"
  have wf: "well_formed tbl" using assms by (rule reachable_well_formed)
  then have "\<not> excl_conflict r x"
    using no_overlap_pairs rx h by (auto simp: well_formed_def)
  moreover have "inicio r < fin r" "inicio x < fin x"
    using wf rx by (auto simp: well_formed_def list_all_iff)
  ultimately show "\<not> overlapping r x"
    using h by (auto simp: excl_conflict_def overlapping_def reservation_time_range_def)
next
  fix r x
  assume h: "x \<in> set tbl \<and> fecha r = fecha x \<and> is_active r \<and> is_active x \<and> overlapping r x"
  have wf: "well_formed tbl" using assms by (rule reachable_well_formed)
  then have x: "inicio x < fin x" using h by (auto simp: well_formed_def list_all_iff)
  show "\<exists>e. sql_insert tbl r = Inl e"
  proof (cases "check_row tbl r")
    case None
    from check_row_None [OF None] have "inicio r < fin r" and "\<not> excl_conflict r x"
      using h by auto
    then have False
      using h x by (auto simp: excl_conflict_def overlapping_def reservation_time_range_def)
    then show ?thesis ..
  next
    case (Some e)
    then show ?thesis by (auto simp: sql_insert_def)
  qed
qed

section \<open>Evaluation at concrete inputs\<close>

lemmas sql_defs = sql_insert_def sql_update_def check_row_def reservations_no_overlap_excl_def
  excl_conflict_def is_active_def reservation_time_range_def
lemmas trigger_defs = insert_blocked_date_def blocked_dates_time_order_check_def cancel_reservations_in_blocked_range_def
  affected_reservations_def block_overlaps_def cancel_update_def notify_cancelled_def
  append_note_def cancel_reason_def
lemmas sample_defs = sample_def world_of_def quiet_def signed_in_def trigger_quiet_def
  maintenance_def
lemmas delete_defs = deleteReservation_def select_single_def acting_admin_def truthy_def
  updateObject_def audit_row_def insert_cancellation_def update_reservation_def
  is_admin_uid_def references_profile_def Let_def

theorem C1_no_overlap_invariant_witness:
  "reachable [sample ''r1'' ''Ana'' 36000 39600 Pending] \<and>
   (\<exists>e. sql_insert [sample ''r1'' ''Ana'' 36000 39600 Pending]
          (sample ''r2'' ''Luis'' 37800 41400 Pending) = Inl e)"
proof -
  have r: "reachable [sample ''r1'' ''Ana'' 36000 39600 Pending]"
    using reachable.insert [OF reachable.empty, of "sample ''r1'' ''Ana'' 36000 39600 Pending"]
    by (simp add: sql_defs sample_def)
  have "sample ''r1'' ''Ana'' 36000 39600 Pending \<in> set [sample ''r1'' ''Ana'' 36000 39600 Pending] \<and>
        fecha (sample ''r2'' ''Luis'' 37800 41400 Pending) = fecha (sample ''r1'' ''Ana'' 36000 39600 Pending) \<and>
        is_active (sample ''r2'' ''Luis'' 37800 41400 Pending) \<and>
        is_active (sample ''r1'' ''Ana'' 36000 39600 Pending) \<and>
        overlapping (sample ''r2'' ''Luis'' 37800 41400 Pending) (sample ''r1'' ''Ana'' 36000 39600 Pending)"
    by (simp add: sample_def is_active_def overlapping_def)
  then show ?thesis
    using r C1_no_overlap_invariant [OF r] by blast
qed

section \<open>Updates that the constraints accept\<close>

lemma find_by_id:
  "distinct (map res_id tbl) \<Longrightarrow> r \<in> set tbl \<Longrightarrow> find (\<lambda>x. res_id x = res_id r) tbl = Some r"
  by (induction tbl) (auto simp: image_iff)

lemma map_replace_id [simp]:
  "map res_id (map (\<lambda>x. if res_id x = i then r\<lparr>res_id := i\<rparr> else x) tbl) = map res_id tbl"
  by (induction tbl) auto

lemma sql_update_ids:
  "sql_update tbl i upd = Inr tbl' \<Longrightarrow> map res_id tbl' = map res_id tbl"
  by (auto simp: sql_update_def Let_def split: option.splits)

lemma sql_update_harmless:
  assumes wf: "well_formed tbl" and r: "r \<in> set tbl" and h: "harmless upd r"
  shows "sql_update tbl (res_id r) upd =
           Inr (map (\<lambda>x. if res_id x = res_id r then (upd r)\<lparr>res_id := res_id r\<rparr> else x) tbl)"
proof -
  define r' where "r' = (upd r)\<lparr>res_id := res_id r\<rparr>"
  have d: "distinct (map res_id tbl)" using wf by (simp add: well_formed_def)
  have f: "find (\<lambda>x. res_id x = res_id r) tbl = Some r" using find_by_id [OF d r] .
  have rok: "inicio r < fin r" "0 < personas r"
    using wf r by (auto simp: well_formed_def list_all_iff)
  have "\<not> excl_conflict r' x" if x: "x \<in> set tbl" "res_id x \<noteq> res_id r" for x
  proof
    assume c: "excl_conflict r' x"
    then have "excl_conflict r x"
      using h by (auto simp: excl_conflict_def harmless_def r'_def is_active_def)
    moreover have "\<not> excl_conflict r x"
      using no_overlap_pairs [OF d _ r x(1)] wf x(2) by (auto simp: well_formed_def)
    ultimately show False by simp
  qed
  then have "check_row (filter (\<lambda>x. res_id x \<noteq> res_id r) tbl) r' = None"
    using rok h by (auto simp: check_row_def reservations_no_overlap_excl_def list_ex_iff harmless_def r'_def)
  then show ?thesis
    using f by (simp add: sql_update_def Let_def r'_def)
qed


lemma notify_cancelled_tables [simp]:
  "reservations (notify_cancelled env b a w) = reservations w"
  "cancellations (notify_cancelled env b a w) = cancellations w"
  "blocked_dates (notify_cancelled env b a w) = blocked_dates w"
  by (simp_all add: notify_cancelled_def)

lemma cancel_update_fields [simp]:
  "res_id (cancel_update b r) = res_id r"
  "status (cancel_update b r) = Cancelled"
  "responsable (cancel_update b r) = responsable r"
  by (simp_all add: cancel_update_def)






section \<open>Soft cancellation\<close>

lemma filter_by_id:
  "distinct (map res_id tbl) \<Longrightarrow> r \<in> set tbl \<Longrightarrow> filter (\<lambda>x. res_id x = res_id r) tbl = [r]"
  by (induction tbl) (auto simp: image_iff filter_empty_conv)

lemma updateObject_fields [simp]:
  "res_id (updateObject a why r) = res_id r"
  "status (updateObject a why r) = Cancelled"
  "admin_notes (updateObject a why r) =
     Some (if truthy why then ''Motivo: '' @ sanitizeInput why else ''Motivo: No especificado'')"
  "updated_by (updateObject a why r) = (if truthy a then a else updated_by r)"
  by (simp_all add: updateObject_def Let_def)

lemma harmless_updateObject: "harmless (updateObject a why) r"
  by (simp add: harmless_def updateObject_def is_active_def Let_def)


lemma update_reservation_ids:
  "update_reservation env i upd w = Inr tbl \<Longrightarrow> map res_id tbl = map res_id (reservations w)"
  by (auto simp: update_reservation_def dest: sql_update_ids split: if_splits sum.splits)


lemma insert_cancellation_tables [simp]:
  "reservations (insert_cancellation env c w) = reservations w"
  "profiles (insert_cancellation env c w) = profiles w"
  "emails (insert_cancellation env c w) = emails w"
  by (simp_all add: insert_cancellation_def)

lemma deleteReservation_ids:
  "map res_id (reservations (snd (deleteReservation env i why w))) = map res_id (reservations w)"
  by (auto simp: deleteReservation_def Let_def dest: update_reservation_ids
           split: sum.splits option.splits)


lemma admin_has_profile: "is_admin_uid ps uid \<Longrightarrow> references_profile ps uid"
  by (auto simp: is_admin_uid_def references_profile_def list_ex_iff split: option.splits)

text \<open>The request of an admin caller reaches the table.\<close>

lemma update_reservation_admin:
  assumes "well_formed (reservations w)" and "r \<in> set (reservations w)" and "harmless upd r"
    and "is_admin_uid (profiles w) (auth_uid env)"
    and "updated_by (upd r) = updated_by r \<or> references_profile (profiles w) (updated_by (upd r))"
  shows "update_reservation env (res_id r) upd w =
           Inr (map (\<lambda>x. if res_id x = res_id r then (upd r)\<lparr>res_id := res_id r\<rparr> else x)
                  (reservations w))"
proof -
  have d: "distinct (map res_id (reservations w))" using assms(1) by (simp add: well_formed_def)
  have "filter (\<lambda>x. res_id x = res_id r) (reservations w) = [r]"
    using filter_by_id [OF d assms(2)] .
  then show ?thesis
    using sql_update_harmless [OF assms(1,2,3)] assms(4,5)
    by (simp add: update_reservation_def)
qed

lemma deleteReservation_result:
  assumes wf: "well_formed (reservations w)" and r: "r \<in> set (reservations w)"
    and i: "res_id r \<noteq> []"
    and sel: "select_fault env (res_id r) = None" and upd: "update_fault env (res_id r) = None"
    and adm: "is_admin_uid (profiles w) (auth_uid env)"
    and fk: "references_profile (profiles w) (acting_admin env)"
  shows "deleteReservation env (res_id r) why w =
     (Inr True,
      w\<lparr>cancellations := cancellations w @
           (if audit_fault env (res_id r) then []
            else [audit_row (res_id r) (acting_admin env) why r]),
        reservations := map (\<lambda>x. if res_id x = res_id r
                                  then updateObject (acting_admin env) why r else x) (reservations w),
        emails := emails w @
           [EmailRequest ''reservation-cancelled'' (email r) (res_id r)
              (Some (if truthy why then sanitizeInput why else ''No especificado''))]\<rparr>)"
proof -
  let ?c = "audit_row (res_id r) (acting_admin env) why r"
  let ?w1 = "insert_cancellation env ?c w"
  have d: "distinct (map res_id (reservations w))" using wf by (simp add: well_formed_def)
  have s: "select_single env (reservations w) (res_id r) = Inr r"
    using filter_by_id [OF d r] sel by (simp add: select_single_def)
  have w1: "?w1 = w\<lparr>cancellations := cancellations w @
                      (if audit_fault env (res_id r) then [] else [?c])\<rparr>"
    using adm fk r by (auto simp: insert_cancellation_def audit_row_def list_ex_iff)
  have f: "updated_by (updateObject (acting_admin env) why r) = updated_by r \<or>
           references_profile (profiles ?w1) (updated_by (updateObject (acting_admin env) why r))"
    using fk by simp
  have u: "update_reservation env (res_id r) (updateObject (acting_admin env) why) ?w1 =
             Inr (map (\<lambda>x. if res_id x = res_id r
                            then updateObject (acting_admin env) why r else x) (reservations w))"
    using update_reservation_admin [of ?w1 r "updateObject (acting_admin env) why" env]
      wf r harmless_updateObject adm f
    by (simp add: updateObject_def Let_def)
  show ?thesis
    using i s u upd by (simp add: deleteReservation_def Let_def w1)
qed

text \<open>For any other caller the policies admit neither request, and the function returns true.\<close>

lemma deleteReservation_not_admin:
  assumes wf: "well_formed (reservations w)" and r: "r \<in> set (reservations w)"
    and i: "res_id r \<noteq> []"
    and sel: "select_fault env (res_id r) = None" and upd: "update_fault env (res_id r) = None"
    and adm: "\<not> is_admin_uid (profiles w) (auth_uid env)"
  shows "deleteReservation env (res_id r) why w =
     (Inr True,
      w\<lparr>emails := emails w @
           [EmailRequest ''reservation-cancelled'' (email r) (res_id r)
              (Some (if truthy why then sanitizeInput why else ''No especificado''))]\<rparr>)"
proof -
  have d: "distinct (map res_id (reservations w))" using wf by (simp add: well_formed_def)
  have s: "select_single env (reservations w) (res_id r) = Inr r"
    using filter_by_id [OF d r] sel by (simp add: select_single_def)
  show ?thesis
    using i s upd adm
    by (simp add: deleteReservation_def Let_def insert_cancellation_def update_reservation_def)
qed

section \<open>Blocking a time slot\<close>

lemma cancel_existing_ids:
  "map res_id (reservations (cancel_existing env why sel w)) = map res_id (reservations w)"
  by (induction sel arbitrary: w) (simp_all add: deleteReservation_ids)



lemma blockedReservation_rejected: "\<exists>err. sql_insert tbl (blockedReservation env d s e why) = Inl err"
  by (simp add: sql_insert_def check_row_def blockedReservation_def)

lemma blockTimeSlot_snd:
  "query_fault env = None \<Longrightarrow>
   snd (blockTimeSlot env dt s e why w) =
     snd (insert_reservation env (blockedReservation env dt s e why)
            (cancel_existing env (cancellationReason why)
               (existingReservations dt s e (reservations w)) w))"
  by (simp add: blockTimeSlot_def Let_def split: prod.splits sum.splits)

lemma blockTimeSlot_fst:
  "query_fault env = None \<Longrightarrow>
   fst (blockTimeSlot env dt s e why w) =
     (case fst (insert_reservation env (blockedReservation env dt s e why)
            (cancel_existing env (cancellationReason why)
               (existingReservations dt s e (reservations w)) w)) of
        Inl err \<Rightarrow> Inl (Postgrest err) | Inr row \<Rightarrow> Inr row)"
  by (simp add: blockTimeSlot_def Let_def split: prod.splits sum.splits)


lemma insert_blockedReservation_fails:
  "\<exists>err. fst (insert_reservation env (blockedReservation env dt s e why) w1) = Inl err"
  using blockedReservation_rejected [of "reservations w1" env dt s e why]
  by (auto simp: insert_reservation_def Let_def split: option.splits)

lemma blockTimeSlot_throws: "\<exists>err. fst (blockTimeSlot env dt s e why w) = Inl err"
proof (cases "query_fault env")
  case (Some a)
  then show ?thesis by (simp add: blockTimeSlot_def)
next
  case None
  obtain err where
    "fst (insert_reservation env (blockedReservation env dt s e why)
            (cancel_existing env (cancellationReason why)
               (existingReservations dt s e (reservations w)) w)) = Inl err"
    using insert_blockedReservation_fails by blast
  then show ?thesis by (simp add: blockTimeSlot_fst [OF None])
qed

lemma blockTimeSlot_ids:
  "map res_id (reservations (snd (blockTimeSlot env dt s e why w))) = map res_id (reservations w)"
proof (cases "query_fault env")
  case (Some a)
  then show ?thesis by (simp add: blockTimeSlot_def)
next
  case None
  have "reservations (snd (insert_reservation env (blockedReservation env dt s e why) w1)) =
        reservations w1" for w1
    using blockedReservation_rejected [of "reservations w1" env dt s e why]
    by (auto simp: insert_reservation_def Let_def split: option.splits)
  then show ?thesis by (simp add: blockTimeSlot_snd [OF None] cancel_existing_ids)
qed

section \<open>The cascade of a block\<close>

text \<open>
  C2. At the scenario of the specification (an approved reservation 09:00 to 10:00, then the
  block 08:00 to 12:00 with reason "maintenance"), the trigger cancels the reservation and
  appends no row to the cancellations table.
\<close>

theorem C2_cascade_appends_no_audit_row:
  "\<not> isl (insert_blocked_date trigger_quiet maintenance
            (world_of [sample ''r1'' ''Ana'' 32400 36000 Approved])) \<and>
   map status (reservations (projr (insert_blocked_date trigger_quiet maintenance
            (world_of [sample ''r1'' ''Ana'' 32400 36000 Approved])))) = [Cancelled] \<and>
   cancellations (projr (insert_blocked_date trigger_quiet maintenance
            (world_of [sample ''r1'' ''Ana'' 32400 36000 Approved]))) = []"
  by (simp add: sql_defs trigger_defs sample_defs)






text \<open>
  C10. The placeholder that blockTimeSlot builds has personas = 0, no table accepts it, and
  so every call of blockTimeSlot throws and leaves the table without a new row.
\<close>

theorem C10_blockTimeSlot_always_throws:
  "personas (blockedReservation env dt s e why) = 0 \<and>
   (\<exists>err. sql_insert tbl (blockedReservation env dt s e why) = Inl err) \<and>
   (\<exists>err. fst (blockTimeSlot env dt s e why w) = Inl err) \<and>
   map res_id (reservations (snd (blockTimeSlot env dt s e why w))) = map res_id (reservations w)"
  using blockedReservation_rejected [of tbl env dt s e why] blockTimeSlot_throws [of env dt s e why w]
    blockTimeSlot_ids [of env dt s e why w]
  by (simp add: blockedReservation_def)

section \<open>Soft cancellation and its audit trail\<close>

lemma well_formed_single: "e > s \<Longrightarrow> well_formed [sample i who s e st]"
  by (simp add: well_formed_def sample_def)

text \<open>
  C6, counterexample. A signed-in admin cancels, with reason "lluvia", a reservation that
  carries the admin note "VIP" and was last updated by admin-0: the note is replaced, not
  extended. When getUser yields no user for the same admin, the cancellation goes through
  as well and updated_by keeps admin-0 instead of becoming null.
\<close>

theorem C6_note_replaced_counterexample:
  "map admin_notes (reservations (world_of [sample ''r1'' ''Ana'' 36000 39600 Approved])) = [Some ''VIP''] \<and>
   fst (deleteReservation signed_in ''r1'' (Some ''lluvia'')
      (world_of [sample ''r1'' ''Ana'' 36000 39600 Approved])) = Inr True \<and>
   map admin_notes (reservations (snd (deleteReservation signed_in ''r1'' (Some ''lluvia'')
      (world_of [sample ''r1'' ''Ana'' 36000 39600 Approved])))) = [Some ''Motivo: lluvia''] \<and>
   map status (reservations (snd (deleteReservation (signed_in\<lparr>session_user := None\<rparr>) ''r1''
      (Some ''lluvia'') (world_of [sample ''r1'' ''Ana'' 36000 39600 Approved])))) = [Cancelled] \<and>
   map updated_by (reservations (snd (deleteReservation (signed_in\<lparr>session_user := None\<rparr>) ''r1''
      (Some ''lluvia'') (world_of [sample ''r1'' ''Ana'' 36000 39600 Approved])))) = [Some ''admin-0'']"
proof -
  have "sanitizeInput (Some ''lluvia'') = ''lluvia''" by code_simp
  then show ?thesis by (simp add: delete_defs sql_defs sample_defs)
qed

text \<open>
  C6, amended. deleteReservation never deletes a row. Let the reservation belong to a table
  that satisfies its constraints, and let reading and updating the row not fail. When the
  caller is an admin for the record store (signed in, with an admin profile), the function
  returns true; the row gets status cancelled, the note "Motivo: " followed by the
  sanitised reason (or "Motivo: No especificado") in place of its former admin_notes, and
  the caller's id in updated_by when getUser yields it (updated_by is left as it was
  otherwise); every other row is unchanged; and one audit row with that id (or null), the
  sanitised reason, the row's former status and the row as read is appended, unless the
  audit insert fails, which changes neither the result nor the update. When the caller is
  not an admin, the policies of the record store admit neither the audit insert nor the
  update: the function returns true and both tables are as before.
\<close>

theorem C6_soft_cancellation:
  "map res_id (reservations (snd (deleteReservation env i why w))) = map res_id (reservations w) \<and>
   (well_formed (reservations w) \<and> r \<in> set (reservations w) \<and> res_id r \<noteq> [] \<and>
    select_fault env (res_id r) = None \<and> update_fault env (res_id r) = None \<and>
    is_admin_uid (profiles w) (auth_uid env) \<and>
    (session_user env = auth_uid env \<or> session_user env = None) \<longrightarrow>
      fst (deleteReservation env (res_id r) why w) = Inr True \<and>
      reservations (snd (deleteReservation env (res_id r) why w)) =
        map (\<lambda>x. if res_id x = res_id r
                  then r\<lparr>status := Cancelled,
                         admin_notes := Some (if truthy why then ''Motivo: '' @ sanitizeInput why
                                              else ''Motivo: No especificado''),
                         updated_by := (if truthy (session_user env) then session_user env
                                        else updated_by r)\<rparr>
                  else x) (reservations w) \<and>
      cancellations (snd (deleteReservation env (res_id r) why w)) =
        cancellations w @
          (if audit_fault env (res_id r) then []
           else [\<lparr>reservation_id = res_id r,
                  cancelled_by = (if truthy (session_user env) then session_user env else None),
                  reason = (if sanitizeInput why = [] then None else Some (sanitizeInput why)),
                  previous_status = status r,
                  reservation_snapshot = r\<rparr>])) \<and>
   (well_formed (reservations w) \<and> r \<in> set (reservations w) \<and> res_id r \<noteq> [] \<and>
    select_fault env (res_id r) = None \<and> update_fault env (res_id r) = None \<and>
    \<not> is_admin_uid (profiles w) (auth_uid env) \<longrightarrow>
      fst (deleteReservation env (res_id r) why w) = Inr True \<and>
      reservations (snd (deleteReservation env (res_id r) why w)) = reservations w \<and>
      cancellations (snd (deleteReservation env (res_id r) why w)) = cancellations w)"
proof (intro conjI impI)
  show "map res_id (reservations (snd (deleteReservation env i why w))) = map res_id (reservations w)"
    by (rule deleteReservation_ids)
next
  assume h: "well_formed (reservations w) \<and> r \<in> set (reservations w) \<and> res_id r \<noteq> [] \<and>
    select_fault env (res_id r) = None \<and> update_fault env (res_id r) = None \<and>
    \<not> is_admin_uid (profiles w) (auth_uid env)"
  then have res: "deleteReservation env (res_id r) why w =
     (Inr True,
      w\<lparr>emails := emails w @
           [EmailRequest ''reservation-cancelled'' (email r) (res_id r)
              (Some (if truthy why then sanitizeInput why else ''No especificado''))]\<rparr>)"
    using deleteReservation_not_admin by blast
  show "fst (deleteReservation env (res_id r) why w) = Inr True"
    and "reservations (snd (deleteReservation env (res_id r) why w)) = reservations w"
    and "cancellations (snd (deleteReservation env (res_id r) why w)) = cancellations w"
    by (simp_all add: res)
next
  assume h: "well_formed (reservations w) \<and> r \<in> set (reservations w) \<and> res_id r \<noteq> [] \<and>
    select_fault env (res_id r) = None \<and> update_fault env (res_id r) = None \<and>
    is_admin_uid (profiles w) (auth_uid env) \<and>
    (session_user env = auth_uid env \<or> session_user env = None)"
  have fk: "references_profile (profiles w) (acting_admin env)"
    using h admin_has_profile [of "profiles w" "auth_uid env"]
    by (auto simp: acting_admin_def references_profile_def)
  have res: "deleteReservation env (res_id r) why w =
     (Inr True,
      w\<lparr>cancellations := cancellations w @
           (if audit_fault env (res_id r) then []
            else [audit_row (res_id r) (acting_admin env) why r]),
        reservations := map (\<lambda>x. if res_id x = res_id r
                                  then updateObject (acting_admin env) why r else x) (reservations w),
        emails := emails w @
           [EmailRequest ''reservation-cancelled'' (email r) (res_id r)
              (Some (if truthy why then sanitizeInput why else ''No especificado''))]\<rparr>)"
    using deleteReservation_result h fk by blast
  show "fst (deleteReservation env (res_id r) why w) = Inr True"
    by (simp add: res)
  have u: "updateObject (acting_admin env) why r =
           r\<lparr>status := Cancelled,
             admin_notes := Some (if truthy why then ''Motivo: '' @ sanitizeInput why
                                  else ''Motivo: No especificado''),
             updated_by := (if truthy (session_user env) then session_user env else updated_by r)\<rparr>"
    by (simp add: updateObject_def acting_admin_def Let_def truthy_def)
  show "reservations (snd (deleteReservation env (res_id r) why w)) =
        map (\<lambda>x. if res_id x = res_id r
                  then r\<lparr>status := Cancelled,
                         admin_notes := Some (if truthy why then ''Motivo: '' @ sanitizeInput why
                                              else ''Motivo: No especificado''),
                         updated_by := (if truthy (session_user env) then session_user env
                                        else updated_by r)\<rparr>
                  else x) (reservations w)"
    by (simp add: res u)
  show "cancellations (snd (deleteReservation env (res_id r) why w)) =
        cancellations w @
          (if audit_fault env (res_id r) then []
           else [\<lparr>reservation_id = res_id r,
                  cancelled_by = (if truthy (session_user env) then session_user env else None),
                  reason = (if sanitizeInput why = [] then None else Some (sanitizeInput why)),
                  previous_status = status r,
                  reservation_snapshot = r\<rparr>])"
    by (simp add: res audit_row_def acting_admin_def)
qed

text \<open>The audit insert of a signed-in admin fails, and the cancellation succeeds all the same.\<close>

theorem C6_soft_cancellation_witness:
  "well_formed (reservations (world_of [sample ''r1'' ''Ana'' 36000 39600 Approved])) \<and>
   is_admin_uid (profiles (world_of [sample ''r1'' ''Ana'' 36000 39600 Approved]))
     (auth_uid (signed_in\<lparr>audit_fault := \<lambda>_. True\<rparr>)) \<and>
   fst (deleteReservation (signed_in\<lparr>audit_fault := \<lambda>_. True\<rparr>) ''r1'' None
          (world_of [sample ''r1'' ''Ana'' 36000 39600 Approved])) = Inr True \<and>
   map status (reservations (snd (deleteReservation (signed_in\<lparr>audit_fault := \<lambda>_. True\<rparr>) ''r1'' None
          (world_of [sample ''r1'' ''Ana'' 36000 39600 Approved])))) = [Cancelled] \<and>
   map updated_by (reservations (snd (deleteReservation (signed_in\<lparr>audit_fault := \<lambda>_. True\<rparr>) ''r1'' None
          (world_of [sample ''r1'' ''Ana'' 36000 39600 Approved])))) = [Some ''admin-1''] \<and>
   cancellations (snd (deleteReservation (signed_in\<lparr>audit_fault := \<lambda>_. True\<rparr>) ''r1'' None
          (world_of [sample ''r1'' ''Ana'' 36000 39600 Approved]))) = []"
proof -
  let ?env = "signed_in\<lparr>audit_fault := \<lambda>_. True\<rparr>"
  let ?r = "sample ''r1'' ''Ana'' 36000 39600 Approved"
  let ?w = "world_of [?r]"
  have wf: "well_formed (reservations ?w)"
    using well_formed_single [of 36000 39600] by (simp add: world_of_def)
  have i: "res_id ?r = ''r1''" by (simp add: sample_def)
  have adm: "is_admin_uid (profiles ?w) (auth_uid ?env)"
    by (simp add: is_admin_uid_def world_of_def signed_in_def quiet_def)
  have hyp: "well_formed (reservations ?w) \<and> ?r \<in> set (reservations ?w) \<and> res_id ?r \<noteq> [] \<and>
             select_fault ?env (res_id ?r) = None \<and> update_fault ?env (res_id ?r) = None \<and>
             is_admin_uid (profiles ?w) (auth_uid ?env) \<and>
             (session_user ?env = auth_uid ?env \<or> session_user ?env = None)"
    using wf adm by (simp add: i) (simp add: world_of_def signed_in_def quiet_def)
  from C6_soft_cancellation [of ?env "''r1''" None ?w ?r] hyp
  have a: "fst (deleteReservation ?env (res_id ?r) None ?w) = Inr True"
    and b: "reservations (snd (deleteReservation ?env (res_id ?r) None ?w)) =
        map (\<lambda>x. if res_id x = res_id ?r
                  then ?r\<lparr>status := Cancelled,
                         admin_notes := Some (if truthy None then ''Motivo: '' @ sanitizeInput None
                                              else ''Motivo: No especificado''),
                         updated_by := (if truthy (session_user ?env) then session_user ?env
                                        else updated_by ?r)\<rparr>
                  else x) (reservations ?w)"
    and c: "cancellations (snd (deleteReservation ?env (res_id ?r) None ?w)) =
        cancellations ?w @
          (if audit_fault ?env (res_id ?r) then []
           else [\<lparr>reservation_id = res_id ?r,
                  cancelled_by = (if truthy (session_user ?env) then session_user ?env else None),
                  reason = (if sanitizeInput None = [] then None else Some (sanitizeInput None)),
                  previous_status = status ?r,
                  reservation_snapshot = ?r\<rparr>])"
    by blast+
  have b1: "map status (reservations (snd (deleteReservation ?env ''r1'' None ?w))) = [Cancelled]"
    using b by (simp add: world_of_def i)
  have b2: "map updated_by (reservations (snd (deleteReservation ?env ''r1'' None ?w))) =
              [Some ''admin-1'']"
    using b by (simp add: world_of_def i signed_in_def quiet_def truthy_def)
  have c': "cancellations (snd (deleteReservation ?env ''r1'' None ?w)) = []"
    using c by (simp add: world_of_def i signed_in_def quiet_def)
  show ?thesis using wf adm a b1 b2 c' by (simp add: i)
qed

text \<open>
  C7. A signed-in admin cancels an approved reservation and then cancels it again: the
  second call is accepted, and the audit table holds two rows for the reservation, the
  second with the former status cancelled.
\<close>

theorem C7_cancelled_twice_audited_twice:
  "fst (deleteReservation signed_in ''r1'' None
      (snd (deleteReservation signed_in ''r1'' None
         (world_of [sample ''r1'' ''Ana'' 36000 39600 Approved])))) = Inr True \<and>
   map reservation_id (cancellations (snd (deleteReservation signed_in ''r1'' None
      (snd (deleteReservation signed_in ''r1'' None
         (world_of [sample ''r1'' ''Ana'' 36000 39600 Approved])))))) = [''r1'', ''r1''] \<and>
   map previous_status (cancellations (snd (deleteReservation signed_in ''r1'' None
      (snd (deleteReservation signed_in ''r1'' None
         (world_of [sample ''r1'' ''Ana'' 36000 39600 Approved])))))) = [Approved, Cancelled]"
  by (simp add: delete_defs sql_defs sample_defs sanitizeInput_def)

text \<open>
  The same for every already-cancelled reservation of a table that satisfies its
  constraints, when an admin calls and no request fails.
\<close>

lemma deleteReservation_cancelled_again:
  assumes "well_formed (reservations w)" and "r \<in> set (reservations w)" and "res_id r \<noteq> []"
    and "status r = Cancelled"
    and "select_fault env (res_id r) = None" and "update_fault env (res_id r) = None"
    and "\<not> audit_fault env (res_id r)"
    and "is_admin_uid (profiles w) (auth_uid env)" and "session_user env = auth_uid env"
  shows "fst (deleteReservation env (res_id r) why w) = Inr True \<and>
         length (cancellations (snd (deleteReservation env (res_id r) why w))) =
           length (cancellations w) + 1 \<and>
         previous_status (last (cancellations (snd (deleteReservation env (res_id r) why w)))) =
           Cancelled"
proof -
  have fk: "references_profile (profiles w) (acting_admin env)"
    using assms(8,9) admin_has_profile [of "profiles w" "auth_uid env"]
    by (auto simp: acting_admin_def references_profile_def)
  show ?thesis
    using deleteReservation_result [OF assms(1,2,3,5,6,8) fk, of why] assms(4,7)
    by (simp add: audit_row_def)
qed

section \<open>The availability pre-check\<close>

text \<open>With ordered intervals the three-way test of checkAvailability is the two-way test.\<close>

lemma hasOverlap_iff:
  assumes "startTime < endTime" and "time_text (inicio r) < time_text (fin r)"
  shows "hasOverlap startTime endTime r =
           doTimeRangesOverlap startTime endTime (time_text (inicio r)) (time_text (fin r))"
  using assms by (auto simp: hasOverlap_def doTimeRangesOverlap_def Let_def)

text \<open>
  What checkAvailability computes, for a fetch that succeeds and ordered intervals: the slot
  is available exactly when no reservation of that date that is not cancelled overlaps it.
  Rejected reservations count.
\<close>

lemma checkAvailability_iff:
  assumes "query_fault env = None" and "startTime < endTime"
    and "\<forall>r\<in>set (reservations w). time_text (inicio r) < time_text (fin r)"
  shows "checkAvailability env d startTime endTime None w =
           (\<not> (\<exists>r\<in>set (reservations w). status r \<noteq> Cancelled \<and> fecha r = d \<and>
                 doTimeRangesOverlap startTime endTime (time_text (inicio r)) (time_text (fin r))))"
  using assms
  by (auto simp: checkAvailability_def truthy_def list_ex_iff hasOverlap_iff)

text \<open>
  C4. A rejected reservation of 10:00 to 11:00 is the only row of the date: no active
  reservation exists and the table accepts a new reservation for 10:00 to 11:00, yet
  checkAvailability answers that the slot is not available.
\<close>

theorem C4_rejected_reservation_blocks_slot:
  "checkAvailability quiet 20310 ''10:00'' ''11:00'' None
     (world_of [sample ''r1'' ''Ana'' 36000 39600 Rejected]) = False \<and>
   list_ex is_active (reservations (world_of [sample ''r1'' ''Ana'' 36000 39600 Rejected])) = False \<and>
   isl (sql_insert (reservations (world_of [sample ''r1'' ''Ana'' 36000 39600 Rejected]))
          (sample ''r2'' ''Luis'' 36000 39600 Pending)) = False"
  by (simp add: checkAvailability_def hasOverlap_def time_text_def pad2_def truthy_def
        sample_defs sql_defs)

section \<open>The slot-taken outcome of addReservation\<close>

lemma insert_reservation_counts:
  "inserts_sent (snd (insert_reservation env row w)) = inserts_sent w + 1"
  by (auto simp: insert_reservation_def Let_def split: option.splits sum.splits)

lemma insert_reservation_failed:
  "fst (insert_reservation env row w) = Inl error \<Longrightarrow>
   insert_reservation env row w = (Inl error, w\<lparr>inserts_sent := inserts_sent w + 1\<rparr>)"
  by (auto simp: insert_reservation_def Let_def split: option.splits sum.splits)

lemma sql_insert_errors:
  "sql_insert tbl row = Inl error \<Longrightarrow>
   error = unique_violation \<or> error = time_order_violation \<or> error = personas_violation \<or>
   error = exclusion_violation"
  by (auto simp: sql_insert_def check_row_def split: if_splits option.splits)

lemma other_violations_are_generic:
  "\<not> is_overlap_violation unique_violation \<and> message unique_violation \<noteq> ''SLOT_TAKEN''"
  "\<not> is_overlap_violation time_order_violation \<and> message time_order_violation \<noteq> ''SLOT_TAKEN''"
  "\<not> is_overlap_violation personas_violation \<and> message personas_violation \<noteq> ''SLOT_TAKEN''"
  by (simp_all add: is_overlap_violation_def unique_violation_def time_order_violation_def
        personas_violation_def)

text \<open>
  C5. When the insert of addReservation fails with an error whose code is 23P01 or whose
  message names reservations_no_overlap_excl (as the error of the exclusion constraint
  does), addReservation returns null and shows the slot-taken toast, which differs from the
  creation-error toast; one INSERT request has been sent and the table is unchanged. Every
  other error that the table itself reports shows the creation-error toast, and so does any
  other failure, unless it is an Error instance whose message is literally SLOT_TAKEN.
\<close>

theorem C5_slot_taken_outcome:
  assumes "fst (insert_reservation env (insertData env newReservation) w) = Inl error"
  shows "(is_overlap_violation error \<longrightarrow>
            addReservation env newReservation w =
              (None, w\<lparr>inserts_sent := inserts_sent w + 1, toasts := toasts w @ [SLOT_TAKEN_TOAST]\<rparr>)) \<and>
         (\<not> is_overlap_violation error \<and>
          \<not> (postgrest_error_is_Error env \<and> message error = ''SLOT_TAKEN'') \<longrightarrow>
            addReservation env newReservation w =
              (None, w\<lparr>inserts_sent := inserts_sent w + 1, toasts := toasts w @ [CREATE_ERROR_TOAST]\<rparr>)) \<and>
         (insert_fault env = None \<and> error \<noteq> exclusion_violation \<longrightarrow>
            addReservation env newReservation w =
              (None, w\<lparr>inserts_sent := inserts_sent w + 1, toasts := toasts w @ [CREATE_ERROR_TOAST]\<rparr>)) \<and>
         SLOT_TAKEN_TOAST \<noteq> CREATE_ERROR_TOAST \<and>
         is_overlap_violation exclusion_violation"
proof -
  have ex: "is_overlap_violation exclusion_violation"
    by (simp add: is_overlap_violation_def exclusion_violation_def)
  have ne: "SLOT_TAKEN_TOAST \<noteq> CREATE_ERROR_TOAST"
    by (simp add: SLOT_TAKEN_TOAST_def CREATE_ERROR_TOAST_def)
  have gen: "addReservation env newReservation w =
              (None, w\<lparr>inserts_sent := inserts_sent w + 1, toasts := toasts w @ [CREATE_ERROR_TOAST]\<rparr>)"
    if "\<not> is_overlap_violation error"
      and "\<not> (postgrest_error_is_Error env \<and> message error = ''SLOT_TAKEN'')"
    using insert_reservation_failed [OF assms] that
    by (auto simp: addReservation_def is_slot_taken_def Let_def)
  have tbl: "\<not> is_overlap_violation error \<and> message error \<noteq> ''SLOT_TAKEN''"
    if "insert_fault env = None" and "error \<noteq> exclusion_violation"
  proof -
    have "sql_insert (reservations w) (insertData env newReservation) = Inl error"
      using assms that(1)
      by (auto simp: insert_reservation_def Let_def split: sum.splits)
    from sql_insert_errors [OF this] show ?thesis
      using that(2) other_violations_are_generic by auto
  qed
  have slot: "addReservation env newReservation w =
              (None, w\<lparr>inserts_sent := inserts_sent w + 1, toasts := toasts w @ [SLOT_TAKEN_TOAST]\<rparr>)"
    if "is_overlap_violation error"
    using insert_reservation_failed [OF assms] that
    by (simp add: addReservation_def is_slot_taken_def Let_def)
  show ?thesis using ex ne gen tbl slot by blast
qed

theorem C5_slot_taken_outcome_witness:
  "fst (insert_reservation quiet (insertData quiet
          \<lparr>n_responsable = ''Luis'', n_email = ''luis@fiuna.edu.py'', n_motivo = ''asado'',
           n_fecha = 20310, n_inicio = 37800, n_fin = 41400, n_personas = 8\<rparr>)
          (world_of [sample ''r1'' ''Ana'' 36000 39600 Pending])) = Inl exclusion_violation \<and>
   addReservation quiet
          \<lparr>n_responsable = ''Luis'', n_email = ''luis@fiuna.edu.py'', n_motivo = ''asado'',
           n_fecha = 20310, n_inicio = 37800, n_fin = 41400, n_personas = 8\<rparr>
          (world_of [sample ''r1'' ''Ana'' 36000 39600 Pending]) =
     (None, (world_of [sample ''r1'' ''Ana'' 36000 39600 Pending])
              \<lparr>inserts_sent := 1, toasts := [SLOT_TAKEN_TOAST]\<rparr>)"
proof -
  let ?n = "\<lparr>n_responsable = ''Luis'', n_email = ''luis@fiuna.edu.py'', n_motivo = ''asado'',
           n_fecha = 20310, n_inicio = 37800, n_fin = 41400, n_personas = 8\<rparr>"
  let ?w = "world_of [sample ''r1'' ''Ana'' 36000 39600 Pending]"
  have f: "fst (insert_reservation quiet (insertData quiet ?n) ?w) = Inl exclusion_violation"
    by (simp add: insert_reservation_def insertData_def sql_defs sample_defs)
  from C5_slot_taken_outcome [OF f]
  have "addReservation quiet ?n ?w =
          (None, ?w\<lparr>inserts_sent := inserts_sent ?w + 1, toasts := toasts ?w @ [SLOT_TAKEN_TOAST]\<rparr>)"
    by blast
  then show ?thesis using f by (simp add: world_of_def)
qed

section \<open>The confirmation link\<close>

lemma harmless_confirm: "harmless (\<lambda>r. r\<lparr>confirmed := True\<rparr>) r"
  by (simp add: harmless_def is_active_def)

lemma unexpired_filter:
  "filter (unexpired_with_token t n) tbl =
     filter (\<lambda>r. case token_expires_at r of None \<Rightarrow> False | Some x \<Rightarrow> n < x)
       (filter (\<lambda>r. confirmation_token r = Some t) tbl)"
  by (induction tbl) (auto simp: unexpired_with_token_def)

lemma filter_singleton_mem:
  assumes "filter P xs = [r]"
  shows "r \<in> set xs \<and> P r"
proof -
  have "r \<in> set (filter P xs)" using assms by simp
  then show ?thesis by simp
qed

text \<open>
  C8. The anonymous visitor of the public link, with the token of a reservation whose
  expiry lies ahead, is told "expired" and the reservation stays unconfirmed: the update
  policy of reservations admits admins only. For a signed-in admin the confirmation
  succeeds, and it succeeds again with the same token: a used token is not invalid.
\<close>

theorem C8_confirmation_link_defects:
  "confirmReservation quiet (Some ''tok-1'') (world_of [sample ''r1'' ''Ana'' 36000 39600 Pending]) =
     (Expired, world_of [sample ''r1'' ''Ana'' 36000 39600 Pending]) \<and>
   confirmReservation signed_in (Some ''tok-1'') (world_of [sample ''r1'' ''Ana'' 36000 39600 Pending]) =
     (Success, world_of [(sample ''r1'' ''Ana'' 36000 39600 Pending)\<lparr>confirmed := True\<rparr>]) \<and>
   confirmReservation signed_in (Some ''tok-1'')
       (world_of [(sample ''r1'' ''Ana'' 36000 39600 Pending)\<lparr>confirmed := True\<rparr>]) =
     (Success, world_of [(sample ''r1'' ''Ana'' 36000 39600 Pending)\<lparr>confirmed := True\<rparr>])"
  by (simp add: confirmReservation_def confirm_update_def unexpired_with_token_def expiredData_def
        is_admin_uid_def sql_defs sample_defs)

text \<open>
  The outcomes in general, for a non-empty token, a table that satisfies its constraints
  and requests that do not fail. A caller who is not an admin is told "expired" whenever
  exactly one reservation carries the token, whatever its expiry, and nothing changes.
\<close>

lemma confirmReservation_not_admin:
  assumes "t \<noteq> []" and "update_fault env t = None" and "select_fault env t = None"
    and "\<not> is_admin_uid (profiles w) (auth_uid env)"
  shows "confirmReservation env (Some t) w =
           (case filter (\<lambda>x. confirmation_token x = Some t) (reservations w) of
              [r] \<Rightarrow> Expired | _ \<Rightarrow> ErrorStatus, w)"
  using assms
  by (auto simp: confirmReservation_def confirm_update_def expiredData_def
           split: list.splits)

text \<open>
  For an admin caller the token is accepted as long as its expiry lies ahead, whether or
  not the reservation is confirmed already; addReservation sets the expiry to its clock
  plus 24 hours.
\<close>

lemma confirmReservation_admin:
  assumes "well_formed (reservations w)" and "t \<noteq> []"
    and "update_fault env t = None" and "select_fault env t = None"
    and "is_admin_uid (profiles w) (auth_uid env)"
  shows "token_expires_at (insertData env newReservation) = Some (now env + 86400000) \<and>
         (filter (\<lambda>x. confirmation_token x = Some t) (reservations w) = [r] \<and>
          token_expires_at r = Some x \<and> now env < x \<longrightarrow>
            confirmReservation env (Some t) w =
              (Success, w\<lparr>reservations :=
                 map (\<lambda>y. if res_id y = res_id r then r\<lparr>confirmed := True\<rparr> else y) (reservations w)\<rparr>)) \<and>
         (filter (\<lambda>x. confirmation_token x = Some t) (reservations w) = [r] \<and>
          (token_expires_at r = None \<or> (token_expires_at r = Some x \<and> x \<le> now env)) \<longrightarrow>
            confirmReservation env (Some t) w = (Expired, w)) \<and>
         (filter (\<lambda>x. confirmation_token x = Some t) (reservations w) = [] \<longrightarrow>
            confirmReservation env (Some t) w = (ErrorStatus, w))"
proof (intro conjI impI)
  show "token_expires_at (insertData env newReservation) = Some (now env + 86400000)"
    by (simp add: insertData_def)
next
  assume h: "filter (\<lambda>x. confirmation_token x = Some t) (reservations w) = [r] \<and>
          token_expires_at r = Some x \<and> now env < x"
  then have hit: "filter (unexpired_with_token t (now env)) (reservations w) = [r]"
    by (simp add: unexpired_filter)
  have r: "r \<in> set (reservations w)" using h filter_singleton_mem by fastforce
  have "sql_update (reservations w) (res_id r) (\<lambda>r. r\<lparr>confirmed := True\<rparr>) =
          Inr (map (\<lambda>y. if res_id y = res_id r then r\<lparr>confirmed := True\<rparr> else y) (reservations w))"
    using sql_update_harmless [OF assms(1) r harmless_confirm] by simp
  then show "confirmReservation env (Some t) w =
              (Success, w\<lparr>reservations :=
                 map (\<lambda>y. if res_id y = res_id r then r\<lparr>confirmed := True\<rparr> else y) (reservations w)\<rparr>)"
    using assms(2,3,5) hit by (simp add: confirmReservation_def confirm_update_def)
next
  assume h: "filter (\<lambda>x. confirmation_token x = Some t) (reservations w) = [r] \<and>
          (token_expires_at r = None \<or> (token_expires_at r = Some x \<and> x \<le> now env))"
  then have hit: "filter (unexpired_with_token t (now env)) (reservations w) = []"
    by (auto simp: unexpired_filter)
  show "confirmReservation env (Some t) w = (Expired, w)"
    using assms(2,3,4) hit h by (simp add: confirmReservation_def confirm_update_def expiredData_def)
next
  assume h: "filter (\<lambda>x. confirmation_token x = Some t) (reservations w) = []"
  then have hit: "filter (unexpired_with_token t (now env)) (reservations w) = []"
    by (simp add: unexpired_filter)
  show "confirmReservation env (Some t) w = (ErrorStatus, w)"
    using assms(2,3,4) hit h by (simp add: confirmReservation_def confirm_update_def expiredData_def)
qed

section \<open>The profile lookup and its timeout\<close>

text \<open>
  C9. fetchUserProfile is called with an access token, and setting the session never
  settles: the profiles query is never issued, so it does not complete within the
  timeout, and the function never returns, where it should return false.
\<close>

theorem C9_pending_session_blocks_lookup:
  "fetchUserProfile
     \<lparr>set_session = Never, profiles_query = Never, get_user = Never, profiles_insert = Never\<rparr>
     ''u1'' (Some ''jwt'') = None \<and>
   fetchUserProfile
     \<lparr>set_session = Never, profiles_query = Never, get_user = Never, profiles_insert = Never\<rparr>
     ''u1'' (Some ''jwt'') \<noteq> Some False"
  by (simp add: fetchUserProfile_def truthy_def)

text \<open>
  Once the client is there (no access token was given, or setting the session took \<open>d\<close>
  milliseconds), the function returns false whenever the query never settles, rejects,
  answers with an error, or settles only when 3000 ms have passed since the function
  started. With a token and a session that never settles, it never returns.
\<close>

lemma fetchUserProfile_fails_open:
  assumes "(if truthy accessToken then set_session env else Fulfils 0 ()) = Fulfils d u"
    and "profiles_query env = Never \<or>
         (\<exists>t. profiles_query env = Rejects t) \<or>
         (\<exists>t reply. profiles_query env = Fulfils t reply \<and> PROFILE_TIMEOUT_MS \<le> d + t) \<or>
         (\<exists>t profileError. profiles_query env = Fulfils t (Inl profileError))"
  shows "fetchUserProfile env userId accessToken = Some False"
  using assms
  by (auto simp: fetchUserProfile_def PROFILE_TIMEOUT_MS_def split: promise.splits)

lemma fetchUserProfile_blocks:
  "truthy accessToken \<Longrightarrow> set_session env = Never \<Longrightarrow>
   fetchUserProfile env userId accessToken = None"
  by (simp add: fetchUserProfile_def)

end
